theory Spec2Isabelle
  imports Complex_Main "HOL-Library.Multiset" "HOL-Library.Product_Lexorder"
begin

section \<open>Python values shared by the modules\<close>

text \<open>
  The face-recognition service consists of three Python modules: \<^verbatim>\<open>gpu_similarity.py\<close>
  (the similarity engine), \<^verbatim>\<open>dynamic_batch_processor.py\<close> (the batch scheduler) and
  \<^verbatim>\<open>app.py\<close> (the HTTP endpoints and the queue workers).

  A raised Python exception is a value \<open>Exception msg\<close>, where \<open>msg\<close> is what \<^verbatim>\<open>str(e)\<close>
  gives. The type stands for the instances of Python's class \<^verbatim>\<open>Exception\<close>, which is what
  every handler of the three modules catches (\<^verbatim>\<open>except Exception\<close>). A call that may raise
  returns \<open>exn + 'a\<close>, with \<open>Inl\<close> for the raised exception.
\<close>

datatype exn = Exception string

fun str :: "exn \<Rightarrow> string" where
  "str (Exception msg) = msg"

section \<open>The similarity engine (gpu\_similarity.py)\<close>

subsection \<open>Arrays and the NumPy operations used\<close>

text \<open>
  Array elements are modelled as real numbers: the rounding, the overflow and the
  underflow of \<^verbatim>\<open>float32\<close> and \<^verbatim>\<open>float64\<close> arithmetic are not part of the model, so
  a score computed here is the score of the program only where the program's arithmetic
  is exact. The statements below are about shapes, lengths, exceptions and the order of
  results; where one evaluates scores, it does so at inputs on which every intermediate
  value is a small integer or a dyadic fraction. What is part of the model is NumPy's
  division, which never raises: a zero divisor gives \<^verbatim>\<open>nan\<close> or an infinity (with a
  warning).
\<close>

datatype np_float = Finite real | PosInf | NegInf | NaN

definition np_divide :: "real \<Rightarrow> real \<Rightarrow> np_float" where
  "np_divide x y =
     (if y \<noteq> 0 then Finite (x / y)
      else if x = 0 then NaN
      else if 0 < x then PosInf
      else NegInf)"

text \<open>
  \<open>stored_embeddings\<close> is a two-dimensional array of shape \<open>(N, D)\<close>. The shape is kept
  explicitly, since an array with no rows still has its number of columns. An array is
  well shaped when every row has \<open>ncols\<close> entries.
\<close>

record ndarray =
  ncols :: nat
  rows :: "real list list"

definition well_shaped :: "ndarray \<Rightarrow> bool" where
  "well_shaped m = list_all (\<lambda>r. length r = ncols m) (rows m)"

definition len :: "ndarray \<Rightarrow> nat" where
  "len m = length (rows m)"

text \<open>\<^verbatim>\<open>np.linalg.norm(v)\<close> of a one-dimensional array, and with \<^verbatim>\<open>axis=1\<close> of a matrix.\<close>

definition linalg_norm :: "real list \<Rightarrow> real" where
  "linalg_norm v = sqrt (sum_list (map (\<lambda>x. x * x) v))"

definition linalg_norm_axis1 :: "ndarray \<Rightarrow> real list" where
  "linalg_norm_axis1 m = map linalg_norm (rows m)"

text \<open>
  \<^verbatim>\<open>np.dot(query, stored.T)\<close>: the query has shape \<open>(D',)\<close> and the transposed matrix
  \<open>(D, N)\<close>; NumPy raises \<^verbatim>\<open>ValueError\<close> unless \<open>D' = D\<close>, also when \<open>N = 0\<close>.
\<close>

definition inner :: "real list \<Rightarrow> real list \<Rightarrow> real" where
  "inner q r = sum_list (map2 (*) q r)"

definition np_dot :: "real list \<Rightarrow> ndarray \<Rightarrow> exn + real list" where
  "np_dot q m =
     (if length q = ncols m then Inr (map (inner q) (rows m))
      else Inl (Exception ''shapes not aligned''))"

definition np_zeros :: "nat \<Rightarrow> np_float list" where
  "np_zeros n = replicate n (Finite 0)"

subsection \<open>The NumPy path\<close>

text \<open>
  The body of the \<^verbatim>\<open>try\<close> block of \<^verbatim>\<open>_numpy_cosine_similarity\<close>, then the function with
  its handler, which logs the exception and returns \<^verbatim>\<open>np.zeros(len(stored_embeddings))\<close>.
\<close>

definition numpy_try_body :: "real list \<Rightarrow> ndarray \<Rightarrow> exn + np_float list" where
  "numpy_try_body query_embedding stored_embeddings =
     (let query_norm = linalg_norm query_embedding;
          stored_norms = linalg_norm_axis1 stored_embeddings
      in case np_dot query_embedding stored_embeddings of
           Inl e \<Rightarrow> Inl e
         | Inr dot_products \<Rightarrow>
             Inr (map2 np_divide dot_products (map ((*) query_norm) stored_norms)))"

definition numpy_cosine_similarity :: "real list \<Rightarrow> ndarray \<Rightarrow> exn + np_float list" where
  "numpy_cosine_similarity query_embedding stored_embeddings =
     (case numpy_try_body query_embedding stored_embeddings of
        Inr similarities \<Rightarrow> Inr similarities
      | Inl e \<Rightarrow> Inr (np_zeros (len stored_embeddings)))"

subsection \<open>Backends, construction and dispatch\<close>

text \<open>
  CuPy and PyTorch are external libraries. What the engine sees of them is: whether the
  import succeeded (the module constants \<^verbatim>\<open>CUPY_AVAILABLE\<close>, \<^verbatim>\<open>TORCH_AVAILABLE\<close>), the
  outcome of the CuPy test operation, the outcome of \<^verbatim>\<open>torch.cuda.is_available()\<close>, and
  the outcome of the accelerated computation inside each \<^verbatim>\<open>try\<close> block. These are the
  fields of the environment; each may raise.
\<close>

record backends =
  CUPY_AVAILABLE :: bool
  TORCH_AVAILABLE :: bool
  cupy_test :: "exn + unit"
  torch_cuda_is_available :: "exn + bool"
  cupy_kernel :: "real list \<Rightarrow> ndarray \<Rightarrow> exn + np_float list"
  torch_kernel :: "real list \<Rightarrow> ndarray \<Rightarrow> exn + np_float list"

datatype device_name = Cupy | Torch | Numpy

record GPUSimilarityCalculator =
  gpu_available :: bool
  device :: device_name

definition check_gpu_availability :: "backends \<Rightarrow> bool" where
  "check_gpu_availability env =
     (if CUPY_AVAILABLE env then
        (case cupy_test env of Inr _ \<Rightarrow> True | Inl e \<Rightarrow> False)
      else if TORCH_AVAILABLE env then
        (case torch_cuda_is_available env of Inr b \<Rightarrow> b | Inl e \<Rightarrow> False)
      else False)"

text \<open>
  In \<^verbatim>\<open>_get_best_device\<close> the call \<^verbatim>\<open>torch.cuda.is_available()\<close> stands in the condition
  of the \<^verbatim>\<open>elif\<close>, outside any \<^verbatim>\<open>try\<close>: an exception raised there leaves the function.
\<close>

definition get_best_device :: "backends \<Rightarrow> bool \<Rightarrow> exn + device_name" where
  "get_best_device env gpu =
     (if CUPY_AVAILABLE env \<and> gpu then Inr Cupy
      else if TORCH_AVAILABLE env then
        (case torch_cuda_is_available env of
           Inl e \<Rightarrow> Inl e
         | Inr b \<Rightarrow> if b then Inr Torch else Inr Numpy)
      else Inr Numpy)"

definition init :: "backends \<Rightarrow> exn + GPUSimilarityCalculator" where
  "init env =
     (let gpu = check_gpu_availability env
      in case get_best_device env gpu of
           Inl e \<Rightarrow> Inl e
         | Inr d \<Rightarrow> Inr \<lparr>gpu_available = gpu, device = d\<rparr>)"

definition cupy_cosine_similarity :: "backends \<Rightarrow> real list \<Rightarrow> ndarray \<Rightarrow> exn + np_float list" where
  "cupy_cosine_similarity env query_embedding stored_embeddings =
     (case cupy_kernel env query_embedding stored_embeddings of
        Inr similarities \<Rightarrow> Inr similarities
      | Inl e \<Rightarrow> numpy_cosine_similarity query_embedding stored_embeddings)"

definition torch_cosine_similarity :: "backends \<Rightarrow> real list \<Rightarrow> ndarray \<Rightarrow> exn + np_float list" where
  "torch_cosine_similarity env query_embedding stored_embeddings =
     (case torch_kernel env query_embedding stored_embeddings of
        Inr similarities \<Rightarrow> Inr similarities
      | Inl e \<Rightarrow> numpy_cosine_similarity query_embedding stored_embeddings)"

definition cosine_similarity_batch ::
  "backends \<Rightarrow> GPUSimilarityCalculator \<Rightarrow> real list \<Rightarrow> ndarray \<Rightarrow> exn + np_float list" where
  "cosine_similarity_batch env self query_embedding stored_embeddings =
     (if device self = Cupy \<and> CUPY_AVAILABLE env then
        cupy_cosine_similarity env query_embedding stored_embeddings
      else if device self = Torch \<and> TORCH_AVAILABLE env then
        torch_cosine_similarity env query_embedding stored_embeddings
      else numpy_cosine_similarity query_embedding stored_embeddings)"

text \<open>
  A call is answered by the NumPy computation when NumPy is the backend in use, or when
  the accelerated computation in use raised.
\<close>

definition served_by_numpy ::
  "backends \<Rightarrow> GPUSimilarityCalculator \<Rightarrow> real list \<Rightarrow> ndarray \<Rightarrow> bool" where
  "served_by_numpy env self q m =
     (if device self = Cupy \<and> CUPY_AVAILABLE env then isl (cupy_kernel env q m)
      else if device self = Torch \<and> TORCH_AVAILABLE env then isl (torch_kernel env q m)
      else True)"



section \<open>The face processor and the configuration\<close>

text \<open>
  \<^verbatim>\<open>face_processor.py\<close> and \<^verbatim>\<open>config.py\<close> are imported by the modules but are not part of
  the sources at hand: the methods of \<^verbatim>\<open>FaceProcessor\<close> that the code calls, and the
  constants it reads from \<^verbatim>\<open>config\<close>, are parameters. Of a face record only the embedding
  is read. A method returns a list of faces or may return \<^verbatim>\<open>None\<close> (the callers write
  \<^verbatim>\<open>faces or []\<close>), or raises. \<open>cleanup_gpu_memory\<close> is \<open>None\<close> when the processor has no
  attribute \<^verbatim>\<open>_cleanup_gpu_memory\<close>.
\<close>

record face =
  embedding :: "real list"

record 'i FaceProcessor =
  detect_faces :: "'i \<Rightarrow> exn + face list option"
  process_image_file :: "string \<Rightarrow> exn + face list option"
  cleanup_gpu_memory :: "(exn + unit) option"

record config =
  GPU_AVAILABLE :: bool
  MAX_CONCURRENT_IMAGES :: int

section \<open>The dynamic batch scheduler (dynamic\_batch\_processor.py)\<close>

text \<open>
  The fields of \<^verbatim>\<open>DynamicBatchProcessor\<close> that the batch reads and writes. The queue is a
  list with its head at the front; \<open>results\<close> is the dictionary from image path to faces.
\<close>

record DynamicBatchProcessor =
  processing_queue :: "string list"
  results :: "string \<rightharpoonup> face list option"
  completed_count :: nat
  total_count :: nat
  processing :: bool

text \<open>
  \<^verbatim>\<open>_worker_task\<close>: while the batch is running and the queue is not empty, take the next
  path, process it, and store the result and count it under the lock. The handler of
  \<^verbatim>\<open>except Exception\<close> only counts. The clean-up call stands inside the same \<^verbatim>\<open>try\<close>,
  after the result has been stored and counted.
\<close>

function worker_task :: "'i FaceProcessor \<Rightarrow> DynamicBatchProcessor \<Rightarrow> DynamicBatchProcessor" where
  "worker_task face_processor self =
     (if processing self \<and> processing_queue self \<noteq> [] then
        (let image_path = hd (processing_queue self);
             self1 = self\<lparr>processing_queue := tl (processing_queue self)\<rparr>
         in case process_image_file face_processor image_path of
              Inl e \<Rightarrow>
                worker_task face_processor
                  (self1\<lparr>completed_count := completed_count self1 + 1\<rparr>)
            | Inr faces \<Rightarrow>
                (let self2 = self1\<lparr>results := (results self1)(image_path \<mapsto> faces),
                                   completed_count := completed_count self1 + 1\<rparr>
                 in case cleanup_gpu_memory face_processor of
                      Some (Inl e) \<Rightarrow>
                        worker_task face_processor
                          (self2\<lparr>completed_count := completed_count self2 + 1\<rparr>)
                    | _ \<Rightarrow> worker_task face_processor self2))
      else self)"
  by pat_completeness auto
termination
  by (relation "measure (\<lambda>(face_processor, self). length (processing_queue self))") auto

text \<open>\<^verbatim>\<open>_process_sequential\<close>: the loop over the paths, with the dictionary built so far.\<close>

fun process_sequential_loop ::
  "'i FaceProcessor \<Rightarrow> (string \<rightharpoonup> face list option) \<Rightarrow> string list \<Rightarrow> (string \<rightharpoonup> face list option)" where
  "process_sequential_loop face_processor res [] = res"
| "process_sequential_loop face_processor res (image_path # image_paths) =
     process_sequential_loop face_processor
       (case process_image_file face_processor image_path of
          Inr faces \<Rightarrow> res(image_path \<mapsto> faces)
        | Inl e \<Rightarrow> res(image_path \<mapsto> Some []))
       image_paths"

definition process_sequential :: "'i FaceProcessor \<Rightarrow> string list \<Rightarrow> (string \<rightharpoonup> face list option)" where
  "process_sequential face_processor image_paths =
     process_sequential_loop face_processor Map.empty image_paths"

text \<open>
  \<^verbatim>\<open>process_dynamic_batch\<close>. \<^verbatim>\<open>ThreadPoolExecutor(max_workers=n)\<close> raises \<^verbatim>\<open>ValueError\<close>
  when \<open>n \<le> 0\<close>, and the constructor call is outside any \<^verbatim>\<open>try\<close>. The pool runs
  \<open>max_workers\<close> worker tasks; they are modelled under the schedule in which each task
  runs until it returns before the next one starts. With one worker this is the only
  schedule. The function returns the dictionary, and the processor's fields change.
\<close>

definition process_dynamic_batch ::
  "config \<Rightarrow> 'i FaceProcessor \<Rightarrow> DynamicBatchProcessor \<Rightarrow> string list
     \<Rightarrow> exn + (string \<rightharpoonup> face list option) \<times> DynamicBatchProcessor" where
  "process_dynamic_batch cfg face_processor self image_paths =
     (if \<not> GPU_AVAILABLE cfg then Inr (process_sequential face_processor image_paths, self)
      else
        (let self1 = self\<lparr>total_count := length image_paths, completed_count := 0,
                          results := Map.empty, processing := True,
                          processing_queue := processing_queue self @ image_paths\<rparr>;
             max_workers = min (MAX_CONCURRENT_IMAGES cfg) (min (int (total_count self1)) 16)
         in if max_workers \<le> 0 then Inl (Exception ''max_workers must be greater than 0'')
            else
              (let self2 = (worker_task face_processor ^^ nat max_workers) self1
               in Inr (results self2, self2))))"

text \<open>A processor as \<^verbatim>\<open>__init__\<close> leaves it.\<close>

definition new_DynamicBatchProcessor :: DynamicBatchProcessor where
  "new_DynamicBatchProcessor =
     \<lparr>processing_queue = [], results = Map.empty, completed_count = 0, total_count = 0,
      processing = False\<rparr>"

section \<open>The HTTP service (app.py)\<close>

subsection \<open>String operations\<close>

text \<open>
  \<^verbatim>\<open>s.startswith(prefix)\<close>, \<^verbatim>\<open>sub in s\<close> and \<^verbatim>\<open>s.lower()\<close>. A string is a list of
  characters; \<open>lower\<close> maps the letters \<open>A\<close> to \<open>Z\<close> to \<open>a\<close> to \<open>z\<close> and leaves every
  other character as it is.
\<close>

definition startswith :: "string \<Rightarrow> string \<Rightarrow> bool" where
  "startswith s prefix = (take (length prefix) s = prefix)"

fun contains :: "string \<Rightarrow> string \<Rightarrow> bool" where
  "contains [] sub = (sub = [])"
| "contains (c # cs) sub = (startswith (c # cs) sub \<or> contains cs sub)"

definition lower_char :: "char \<Rightarrow> char" where
  "lower_char c =
     (case map_of (zip ''ABCDEFGHIJKLMNOPQRSTUVWXYZ'' ''abcdefghijklmnopqrstuvwxyz'') c of
        Some l \<Rightarrow> l
      | None \<Rightarrow> c)"

definition lower :: "string \<Rightarrow> string" where
  "lower s = map lower_char s"

subsection \<open>The queue worker\<close>

text \<open>
  The libraries the worker and the endpoints call: \<^verbatim>\<open>requests.get(url, timeout)\<close> followed
  by \<^verbatim>\<open>raise_for_status()\<close> and the read of \<^verbatim>\<open>content\<close>; \<^verbatim>\<open>np.frombuffer\<close> and
  \<^verbatim>\<open>cv2.imdecode\<close>, which returns \<^verbatim>\<open>None\<close> for bytes that are no image;
  \<^verbatim>\<open>cv2.cvtColor\<close>; and \<^verbatim>\<open>base64.b64decode\<close>. Each may raise.
\<close>

record ('b, 'i) externals =
  requests_get :: "string \<Rightarrow> nat \<Rightarrow> exn + 'b"
  imdecode :: "'b \<Rightarrow> exn + 'i option"
  cvtColor :: "'i \<Rightarrow> exn + 'i"
  b64decode :: "string \<Rightarrow> exn + 'b"

text \<open>
  What a worker puts on a job's result queue: \<^verbatim>\<open>('success', faces)\<close> or
  \<^verbatim>\<open>('error', message)\<close>. The calls by which the worker obtains the image are recorded.
\<close>

datatype job_result = Success "face list" | Error string

datatype call = RequestsGet string nat | ProcessImageFile string

record job_trace =
  calls :: "call list"
  puts :: "job_result list"

text \<open>
  The \<^verbatim>\<open>try\<close> body shared, up to the URL and the message, by the Cloudinary and the GridFS
  branch: fetch, decode, convert, detect.
\<close>

definition fetch_and_detect ::
  "('b, 'i) externals \<Rightarrow> 'i FaceProcessor \<Rightarrow> string \<Rightarrow> string \<Rightarrow> exn + face list option" where
  "fetch_and_detect ext processor url undecodable =
     (case requests_get ext url 30 of
        Inl e \<Rightarrow> Inl e
      | Inr content \<Rightarrow>
          (case imdecode ext content of
             Inl e \<Rightarrow> Inl e
           | Inr None \<Rightarrow> Inl (Exception undecodable)
           | Inr (Some img) \<Rightarrow>
               (case cvtColor ext img of
                  Inl e \<Rightarrow> Inl e
                | Inr rgb \<Rightarrow> detect_faces processor rgb)))"

text \<open>
  After a branch has produced \<open>faces\<close>: the log line evaluates \<^verbatim>\<open>len(faces)\<close>, which
  raises \<^verbatim>\<open>TypeError\<close> on \<^verbatim>\<open>None\<close>; the outer handler then puts the error. Otherwise the
  worker puts \<^verbatim>\<open>('success', faces or [])\<close>.
\<close>

definition send_result :: "face list option \<Rightarrow> job_result list" where
  "send_result faces =
     (case faces of
        None \<Rightarrow> [Error ''object of type NoneType has no len()'']
      | Some fs \<Rightarrow> [Success fs])"

text \<open>
  One job, from the dispatch on \<open>photo_path\<close> to the puts on the job's result queue. Each
  branch has its own handler, which puts an error and continues with the next job.
\<close>

definition handle_job :: "('b, 'i) externals \<Rightarrow> 'i FaceProcessor \<Rightarrow> string \<Rightarrow> job_trace" where
  "handle_job ext processor photo_path =
     (if startswith photo_path ''http'' \<and> contains photo_path ''cloudinary.com'' then
        (case fetch_and_detect ext processor photo_path ''Could not decode Cloudinary image'' of
           Inl e \<Rightarrow>
             \<lparr>calls = [RequestsGet photo_path 30],
              puts = [Error (''Cloudinary processing error: '' @ str e)]\<rparr>
         | Inr faces \<Rightarrow> \<lparr>calls = [RequestsGet photo_path 30], puts = send_result faces\<rparr>)
      else if length photo_path = 24
              \<and> list_all (\<lambda>c. c \<in> set ''0123456789abcdef'') (lower photo_path) then
        (let image_url = ''http://localhost:5000/api/images/'' @ photo_path
         in case fetch_and_detect ext processor image_url ''Could not decode GridFS image'' of
              Inl e \<Rightarrow>
                \<lparr>calls = [RequestsGet image_url 30],
                 puts = [Error (''GridFS processing error: '' @ str e)]\<rparr>
            | Inr faces \<Rightarrow> \<lparr>calls = [RequestsGet image_url 30], puts = send_result faces\<rparr>)
      else
        (case process_image_file processor photo_path of
           Inl e \<Rightarrow>
             \<lparr>calls = [ProcessImageFile photo_path],
              puts = [Error (''File processing error: '' @ str e)]\<rparr>
         | Inr faces \<Rightarrow> \<lparr>calls = [ProcessImageFile photo_path], puts = send_result faces\<rparr>))"

text \<open>
  The worker loop. \<^verbatim>\<open>app.processing_queue.get(timeout=30)\<close> returns a work item, which is
  a pair of a path and a result queue or the shutdown signal \<^verbatim>\<open>None\<close>, or raises
  \<^verbatim>\<open>queue.Empty\<close>. The loop is run on the list of the outcomes of these calls; when the
  list is used up the worker is waiting in \<^verbatim>\<open>get\<close>. \<open>'q\<close> names result queues.
\<close>

datatype 'q work_item = Job string 'q | Shutdown

datatype 'q get_outcome = Got "'q work_item" | Empty

datatype worker_status = Waiting | Exited | Crashed exn

record 'q worker_trace =
  requested :: "call list"
  delivered :: "('q \<times> job_result) list"
  task_done :: nat

fun worker_loop ::
  "('b, 'i) externals \<Rightarrow> 'i FaceProcessor \<Rightarrow> 'q worker_trace \<Rightarrow> 'q get_outcome list
     \<Rightarrow> worker_status \<times> 'q worker_trace" where
  "worker_loop ext processor tr [] = (Waiting, tr)"
| "worker_loop ext processor tr (Empty # outcomes) = worker_loop ext processor tr outcomes"
| "worker_loop ext processor tr (Got Shutdown # outcomes) = (Exited, tr)"
| "worker_loop ext processor tr (Got (Job photo_path result_queue) # outcomes) =
     (let job = handle_job ext processor photo_path
      in worker_loop ext processor
           (tr\<lparr>requested := requested tr @ calls job,
               delivered := delivered tr @ map (Pair result_queue) (puts job),
               task_done := task_done tr + 1\<rparr>)
           outcomes)"

text \<open>
  The jobs a worker takes from the queue before the shutdown signal, in the order in
  which it takes them: the jobs that are owed a result.
\<close>

fun jobs_served :: "'q get_outcome list \<Rightarrow> (string \<times> 'q) list" where
  "jobs_served [] = []"
| "jobs_served (Empty # outcomes) = jobs_served outcomes"
| "jobs_served (Got Shutdown # outcomes) = []"
| "jobs_served (Got (Job photo_path result_queue) # outcomes) =
     (photo_path, result_queue) # jobs_served outcomes"

text \<open>
  \<^verbatim>\<open>process_worker\<close> first obtains the face processor, outside the loop and outside any
  handler; \<open>get_face_processor\<close> is the outcome of that call.
\<close>

definition process_worker ::
  "('b, 'i) externals \<Rightarrow> exn + 'i FaceProcessor \<Rightarrow> 'q get_outcome list
     \<Rightarrow> worker_status \<times> 'q worker_trace" where
  "process_worker ext get_face_processor outcomes =
     (case get_face_processor of
        Inl e \<Rightarrow> (Crashed e, \<lparr>requested = [], delivered = [], task_done = 0\<rparr>)
      | Inr processor \<Rightarrow>
          worker_loop ext processor \<lparr>requested = [], delivered = [], task_done = 0\<rparr> outcomes)"

subsection \<open>The endpoint /process-photo\<close>

text \<open>
  The queue is created with \<^verbatim>\<open>maxsize=128\<close> and served by \<open>MAX_WORKERS\<close> threads. A
  request sees of it: the value of \<^verbatim>\<open>qsize()\<close>; whether \<^verbatim>\<open>put(item, timeout)\<close> returns
  (\<open>True\<close>) or raises \<^verbatim>\<open>queue.Full\<close>; and what \<^verbatim>\<open>result_queue.get(timeout)\<close> returns,
  \<open>None\<close> standing for \<^verbatim>\<open>queue.Empty\<close>. Timeouts are in seconds.
\<close>

definition MAX_WORKERS :: nat where
  "MAX_WORKERS = 24"

definition processing_queue_maxsize :: nat where
  "processing_queue_maxsize = 128"

record queues =
  qsize :: nat
  queue_put :: "string \<Rightarrow> nat \<Rightarrow> bool"
  result_get :: "nat \<Rightarrow> job_result option"

record photo_request =
  file_reference :: "string option"
  photoPath :: "string option"

datatype response_body =
    Faces "face list"
  | ErrorOnly string
  | Failure string
  | Matches "(string \<times> np_float) list"

record response =
  status_code :: nat
  body :: response_body

record photo_reply =
  reply :: response
  put_attempts :: "(string \<times> nat) list"

definition truthy :: "string option \<Rightarrow> bool" where
  "truthy v = (case v of None \<Rightarrow> False | Some s \<Rightarrow> s \<noteq> [])"

text \<open>
  \<open>request_json\<close> is the outcome of reading \<^verbatim>\<open>request.json\<close>: it raises, or gives
  \<^verbatim>\<open>None\<close>, on which \<^verbatim>\<open>data.get\<close> raises, or gives the object.
\<close>

definition process_photo :: "queues \<Rightarrow> exn + photo_request option \<Rightarrow> photo_reply" where
  "process_photo q request_json =
     (if qsize q > 100 then
        \<lparr>reply = \<lparr>status_code = 503,
                   body = ErrorOnly ''Service overloaded, please try again later''\<rparr>,
         put_attempts = []\<rparr>
      else
        (case request_json of
           Inl e \<Rightarrow> \<lparr>reply = \<lparr>status_code = 500, body = ErrorOnly (str e)\<rparr>, put_attempts = []\<rparr>
         | Inr None \<Rightarrow>
             \<lparr>reply = \<lparr>status_code = 500,
                        body = ErrorOnly ''NoneType object has no attribute get''\<rparr>,
              put_attempts = []\<rparr>
         | Inr (Some data) \<Rightarrow>
             (case (if truthy (file_reference data) then file_reference data else photoPath data) of
                None \<Rightarrow>
                  \<lparr>reply = \<lparr>status_code = 400,
                             body = ErrorOnly ''file_reference or photoPath is required''\<rparr>,
                   put_attempts = []\<rparr>
              | Some photo_path \<Rightarrow>
                  if photo_path = [] then
                    \<lparr>reply = \<lparr>status_code = 400,
                               body = ErrorOnly ''file_reference or photoPath is required''\<rparr>,
                     put_attempts = []\<rparr>
                  else if \<not> queue_put q photo_path 5 then
                    \<lparr>reply = \<lparr>status_code = 503,
                               body = ErrorOnly ''Service overloaded, please try again later''\<rparr>,
                     put_attempts = [(photo_path, 5)]\<rparr>
                  else
                    (case result_get q 120 of
                       None \<Rightarrow>
                         \<lparr>reply = \<lparr>status_code = 504, body = ErrorOnly ''Processing timeout''\<rparr>,
                          put_attempts = [(photo_path, 5)]\<rparr>
                     | Some (Success result) \<Rightarrow>
                         \<lparr>reply = \<lparr>status_code = 200, body = Faces result\<rparr>,
                          put_attempts = [(photo_path, 5)]\<rparr>
                     | Some (Error result) \<Rightarrow>
                         \<lparr>reply = \<lparr>status_code = 500, body = Failure result\<rparr>,
                          put_attempts = [(photo_path, 5)]\<rparr>))))"

subsection \<open>The endpoint /compare-faces\<close>













section \<open>Notions used in the proofs\<close>


section \<open>Example environments\<close>

text \<open>
  A machine with neither CuPy nor PyTorch; one where PyTorch is installed and
  \<^verbatim>\<open>torch.cuda.is_available()\<close> raises; and one where CuPy works but runs out of device
  memory on more than one stored embedding.
\<close>

definition numpy_only :: backends where
  "numpy_only =
     \<lparr>CUPY_AVAILABLE = False, TORCH_AVAILABLE = False,
      cupy_test = Inl (Exception ''name cp is not defined''),
      torch_cuda_is_available = Inl (Exception ''name torch is not defined''),
      cupy_kernel = (\<lambda>q m. Inl (Exception ''name cp is not defined'')),
      torch_kernel = (\<lambda>q m. Inl (Exception ''name torch is not defined''))\<rparr>"

definition torch_probe_raises :: backends where
  "torch_probe_raises =
     \<lparr>CUPY_AVAILABLE = False, TORCH_AVAILABLE = True,
      cupy_test = Inl (Exception ''name cp is not defined''),
      torch_cuda_is_available = Inl (Exception ''CUDA driver initialization failed''),
      cupy_kernel = (\<lambda>q m. Inl (Exception ''name cp is not defined'')),
      torch_kernel = (\<lambda>q m. Inl (Exception ''CUDA driver initialization failed''))\<rparr>"

definition cupy_out_of_memory :: backends where
  "cupy_out_of_memory =
     \<lparr>CUPY_AVAILABLE = True, TORCH_AVAILABLE = False,
      cupy_test = Inr (),
      torch_cuda_is_available = Inl (Exception ''name torch is not defined''),
      cupy_kernel = (\<lambda>q m. if length (rows m) > 1 then Inl (Exception ''out of memory'')
                             else Inr (map (\<lambda>r. Finite 1) (rows m))),
      torch_kernel = (\<lambda>q m. Inl (Exception ''name torch is not defined''))\<rparr>"

text \<open>
  A configuration with and one without an accelerator, and a face processor that cannot
  read the file \<^verbatim>\<open>broken.jpg\<close> and finds no face in any other image.
\<close>

definition gpu_config :: config where
  "gpu_config = \<lparr>GPU_AVAILABLE = True, MAX_CONCURRENT_IMAGES = 8\<rparr>"

definition cpu_config :: config where
  "cpu_config = \<lparr>GPU_AVAILABLE = False, MAX_CONCURRENT_IMAGES = 8\<rparr>"

definition unreadable_processor :: "unit FaceProcessor" where
  "unreadable_processor =
     \<lparr>detect_faces = (\<lambda>img. Inr (Some [])),
      process_image_file =
        (\<lambda>path. if path = ''broken.jpg'' then Inl (Exception ''cannot read image'')
                else Inr (Some [])),
      cleanup_gpu_memory = None\<rparr>"

text \<open>
  A machine on which every HTTP request is refused and no bytes decode to an image.
\<close>

definition offline :: "(unit, unit) externals" where
  "offline =
     \<lparr>requests_get = (\<lambda>url timeout. Inl (Exception ''Connection refused'')),
      imdecode = (\<lambda>content. Inr None),
      cvtColor = (\<lambda>img. Inr img),
      b64decode = (\<lambda>s. Inr ())\<rparr>"



section \<open>Properties of the similarity engine\<close>

lemma served_by_numpy_batch:
  "served_by_numpy env self q m \<Longrightarrow>
     cosine_similarity_batch env self q m = numpy_cosine_similarity q m"
  by (auto simp: served_by_numpy_def cosine_similarity_batch_def cupy_cosine_similarity_def
        torch_cosine_similarity_def isl_def split: if_splits sum.splits)

lemma numpy_cosine_similarity_eq:
  "numpy_cosine_similarity q m =
     (if length q = ncols m
      then Inr (map (\<lambda>r. np_divide (inner q r) (linalg_norm q * linalg_norm r)) (rows m))
      else Inr (replicate (length (rows m)) (Finite 0)))"
  by (simp add: numpy_cosine_similarity_def numpy_try_body_def np_dot_def np_zeros_def len_def
        linalg_norm_axis1_def zip_map_map map_zip_map o_def Let_def zip_same_conv_map)

lemma numpy_returns: "\<exists>s. numpy_cosine_similarity q m = Inr s \<and> length s = length (rows m)"
  by (simp add: numpy_cosine_similarity_eq)

text \<open>
  Claim C3. When the calculator uses CuPy or PyTorch and the accelerated computation of
  a call raises, that call returns what the NumPy path computes, and the NumPy path
  returns a vector and raises nothing. The calculator is not changed by this: on another
  call, on which the accelerated computation returns, its result is the answer.
\<close>

theorem backend_failure_falls_back:
  "(device self = Cupy \<and> CUPY_AVAILABLE env \<and> cupy_kernel env q m = Inl e \<longrightarrow>
      cosine_similarity_batch env self q m = numpy_cosine_similarity q m)
   \<and> (device self = Torch \<and> TORCH_AVAILABLE env \<and> torch_kernel env q m = Inl e \<longrightarrow>
      cosine_similarity_batch env self q m = numpy_cosine_similarity q m)
   \<and> (\<exists>s. numpy_cosine_similarity q m = Inr s \<and> length s = length (rows m))
   \<and> (device self = Cupy \<and> CUPY_AVAILABLE env \<and> cupy_kernel env q' m' = Inr v \<longrightarrow>
      cosine_similarity_batch env self q' m' = Inr v)
   \<and> (device self = Torch \<and> TORCH_AVAILABLE env \<and> torch_kernel env q' m' = Inr v \<longrightarrow>
      cosine_similarity_batch env self q' m' = Inr v)"
  by (simp add: cosine_similarity_batch_def cupy_cosine_similarity_def
        torch_cosine_similarity_def numpy_returns)

theorem backend_failure_falls_back_witness:
  "device \<lparr>gpu_available = True, device = Cupy\<rparr> = Cupy
   \<and> CUPY_AVAILABLE cupy_out_of_memory
   \<and> cupy_kernel cupy_out_of_memory [1, 0] \<lparr>ncols = 2, rows = [[1, 0], [0, 1]]\<rparr>
       = Inl (Exception ''out of memory'')
   \<and> cosine_similarity_batch cupy_out_of_memory \<lparr>gpu_available = True, device = Cupy\<rparr> [1, 0]
         \<lparr>ncols = 2, rows = [[1, 0], [0, 1]]\<rparr>
       = numpy_cosine_similarity [1, 0] \<lparr>ncols = 2, rows = [[1, 0], [0, 1]]\<rparr>
   \<and> cupy_kernel cupy_out_of_memory [1, 0] \<lparr>ncols = 2, rows = [[1, 0]]\<rparr> = Inr [Finite 1]
   \<and> cosine_similarity_batch cupy_out_of_memory \<lparr>gpu_available = True, device = Cupy\<rparr> [1, 0]
         \<lparr>ncols = 2, rows = [[1, 0]]\<rparr> = Inr [Finite 1]"
  using backend_failure_falls_back
    [of "\<lparr>gpu_available = True, device = Cupy\<rparr>" cupy_out_of_memory "[1, 0]"
        "\<lparr>ncols = 2, rows = [[1, 0], [0, 1]]\<rparr>" "Exception ''out of memory''"
        "[1, 0]" "\<lparr>ncols = 2, rows = [[1, 0]]\<rparr>" "[Finite 1]"]
  by (simp add: cupy_out_of_memory_def)

text \<open>
  Claim C9. Construction probes CuPy, then PyTorch, and falls back to NumPy, and an
  exception raised by a probe should mean no more than that the backend is unavailable.
  \<^verbatim>\<open>_check_gpu_availability\<close> does so, but \<^verbatim>\<open>_get_best_device\<close> calls
  \<^verbatim>\<open>torch.cuda.is_available()\<close> again without a handler: where PyTorch is installed and
  that call raises, the first function answers \<open>False\<close> and the construction raises.
\<close>

theorem init_torch_probe_raises:
  "check_gpu_availability torch_probe_raises = False
   \<and> init torch_probe_raises = Inl (Exception ''CUDA driver initialization failed'')"
  by (simp add: torch_probe_raises_def init_def check_gpu_availability_def get_best_device_def)

text \<open>
  Claim C10. When the NumPy computation itself raises, as it does when the dimension of
  the query differs from the number of columns, the handler turns the exception into a
  vector of zeros with one entry for each stored row, and a call answered by the NumPy
  path returns that vector and raises nothing. The value is the one a query orthogonal to
  every row gives: a query of the wrong dimension and an orthogonal query of the right
  dimension have the same result.
\<close>

theorem numpy_failure_returns_zeros:
  "(length q \<noteq> ncols m \<longrightarrow> (\<exists>e. numpy_try_body q m = Inl e))
   \<and> (numpy_try_body q m = Inl e \<longrightarrow>
        numpy_cosine_similarity q m = Inr (replicate (length (rows m)) (Finite 0)))
   \<and> (numpy_try_body q m = Inl e \<and> served_by_numpy env self q m \<longrightarrow>
        cosine_similarity_batch env self q m = Inr (replicate (length (rows m)) (Finite 0)))
   \<and> numpy_cosine_similarity [1] \<lparr>ncols = 2, rows = [[0, 1]]\<rparr>
       = numpy_cosine_similarity [1, 0] \<lparr>ncols = 2, rows = [[0, 1]]\<rparr>"
proof -
  have a: "length q \<noteq> ncols m \<longrightarrow> (\<exists>e. numpy_try_body q m = Inl e)"
    by (simp add: numpy_try_body_def np_dot_def)
  have b: "numpy_try_body q m = Inl e \<longrightarrow>
        numpy_cosine_similarity q m = Inr (replicate (length (rows m)) (Finite 0))"
    by (simp add: numpy_cosine_similarity_def np_zeros_def len_def)
  have c: "numpy_try_body q m = Inl e \<and> served_by_numpy env self q m \<longrightarrow>
        cosine_similarity_batch env self q m = Inr (replicate (length (rows m)) (Finite 0))"
    using b by (simp add: served_by_numpy_batch)
  have d: "numpy_cosine_similarity [1] \<lparr>ncols = 2, rows = [[0, 1]]\<rparr>
       = numpy_cosine_similarity [1, 0] \<lparr>ncols = 2, rows = [[0, 1]]\<rparr>"
    by (simp add: numpy_cosine_similarity_eq inner_def linalg_norm_def np_divide_def)
  from a b c d show ?thesis by blast
qed

theorem numpy_failure_returns_zeros_witness:
  "length [1::real] \<noteq> ncols \<lparr>ncols = 2, rows = [[0, 1], [1, 0]]\<rparr>
   \<and> numpy_try_body [1] \<lparr>ncols = 2, rows = [[0, 1], [1, 0]]\<rparr> = Inl (Exception ''shapes not aligned'')
   \<and> served_by_numpy numpy_only \<lparr>gpu_available = False, device = Numpy\<rparr> [1]
        \<lparr>ncols = 2, rows = [[0, 1], [1, 0]]\<rparr>
   \<and> cosine_similarity_batch numpy_only \<lparr>gpu_available = False, device = Numpy\<rparr> [1]
        \<lparr>ncols = 2, rows = [[0, 1], [1, 0]]\<rparr> = Inr [Finite 0, Finite 0]"
  using numpy_failure_returns_zeros
    [of "[1]" "\<lparr>ncols = 2, rows = [[0, 1], [1, 0]]\<rparr>" "Exception ''shapes not aligned''"
        numpy_only "\<lparr>gpu_available = False, device = Numpy\<rparr>"]
  by (simp add: numpy_try_body_def np_dot_def served_by_numpy_def)

section \<open>Properties of the batch scheduler\<close>

lemma worker_task_broken:
  "worker_task unreadable_processor
     \<lparr>processing_queue = [''broken.jpg''], results = Map.empty, completed_count = 0,
      total_count = 1, processing = True\<rparr>
   = \<lparr>processing_queue = [], results = Map.empty, completed_count = 1,
      total_count = 1, processing = True\<rparr>"
  by (subst worker_task.simps) (simp add: unreadable_processor_def)

text \<open>
  Claim C2. The batch should return one key for each input path whatever fails, with an
  empty result for a failed item. The sequential path does so. On the accelerated path
  the handler of a failed item only counts it: for the single path \<^verbatim>\<open>broken.jpg\<close>, which
  the face processor cannot read, one worker runs, the counter reaches 1 and the returned
  dictionary is empty. On that path an empty input list makes the thread pool's
  constructor raise.
\<close>

theorem dynamic_batch_loses_failed_item:
  "process_dynamic_batch gpu_config unreadable_processor new_DynamicBatchProcessor [''broken.jpg'']
     = Inr (Map.empty,
            \<lparr>processing_queue = [], results = Map.empty, completed_count = 1,
             total_count = 1, processing = True\<rparr>)
   \<and> process_dynamic_batch cpu_config unreadable_processor new_DynamicBatchProcessor [''broken.jpg'']
     = Inr ([''broken.jpg'' \<mapsto> Some []], new_DynamicBatchProcessor)
   \<and> process_dynamic_batch gpu_config unreadable_processor new_DynamicBatchProcessor []
     = Inl (Exception ''max_workers must be greater than 0'')"
  by (simp add: process_dynamic_batch_def gpu_config_def cpu_config_def
        new_DynamicBatchProcessor_def worker_task_broken process_sequential_def
        unreadable_processor_def)

section \<open>Properties of the HTTP service\<close>

text \<open>
  Claim C4. The threshold 100 is below the capacity 128 of the queue. A request that
  finds more than 100 jobs waiting is answered 503 before anything is put on the queue,
  whatever its body. A request with a path whose \<^verbatim>\<open>put\<close> with timeout 5 raises
  \<^verbatim>\<open>queue.Full\<close> gets the same 503 answer. A request whose job was put and whose result
  does not arrive within the timeout 120 is answered 504.
\<close>

theorem process_photo_overload_and_timeout:
  "100 < processing_queue_maxsize
   \<and> (qsize q > 100 \<longrightarrow>
        process_photo q request_json =
          \<lparr>reply = \<lparr>status_code = 503,
                     body = ErrorOnly ''Service overloaded, please try again later''\<rparr>,
           put_attempts = []\<rparr>)
   \<and> (qsize q \<le> 100 \<and> request_json = Inr (Some data)
        \<and> (if truthy (file_reference data) then file_reference data else photoPath data)
            = Some photo_path
        \<and> photo_path \<noteq> [] \<and> \<not> queue_put q photo_path 5 \<longrightarrow>
        process_photo q request_json =
          \<lparr>reply = \<lparr>status_code = 503,
                     body = ErrorOnly ''Service overloaded, please try again later''\<rparr>,
           put_attempts = [(photo_path, 5)]\<rparr>)
   \<and> (qsize q \<le> 100 \<and> request_json = Inr (Some data)
        \<and> (if truthy (file_reference data) then file_reference data else photoPath data)
            = Some photo_path
        \<and> photo_path \<noteq> [] \<and> queue_put q photo_path 5 \<and> result_get q 120 = None \<longrightarrow>
        process_photo q request_json =
          \<lparr>reply = \<lparr>status_code = 504, body = ErrorOnly ''Processing timeout''\<rparr>,
           put_attempts = [(photo_path, 5)]\<rparr>)"
proof -
  have a: "100 < processing_queue_maxsize"
    by (simp add: processing_queue_maxsize_def)
  have b: "qsize q > 100 \<longrightarrow>
        process_photo q request_json =
          \<lparr>reply = \<lparr>status_code = 503,
                     body = ErrorOnly ''Service overloaded, please try again later''\<rparr>,
           put_attempts = []\<rparr>"
    by (simp add: process_photo_def)
  have c: "qsize q \<le> 100 \<and> request_json = Inr (Some data)
        \<and> (if truthy (file_reference data) then file_reference data else photoPath data)
            = Some photo_path
        \<and> photo_path \<noteq> [] \<and> \<not> queue_put q photo_path 5 \<longrightarrow>
        process_photo q request_json =
          \<lparr>reply = \<lparr>status_code = 503,
                     body = ErrorOnly ''Service overloaded, please try again later''\<rparr>,
           put_attempts = [(photo_path, 5)]\<rparr>"
    by (simp add: process_photo_def)
  have d: "qsize q \<le> 100 \<and> request_json = Inr (Some data)
        \<and> (if truthy (file_reference data) then file_reference data else photoPath data)
            = Some photo_path
        \<and> photo_path \<noteq> [] \<and> queue_put q photo_path 5 \<and> result_get q 120 = None \<longrightarrow>
        process_photo q request_json =
          \<lparr>reply = \<lparr>status_code = 504, body = ErrorOnly ''Processing timeout''\<rparr>,
           put_attempts = [(photo_path, 5)]\<rparr>"
    by (simp add: process_photo_def)
  from a b c d show ?thesis by blast
qed


theorem process_photo_overload_and_timeout_witness:
  "qsize \<lparr>qsize = 101, queue_put = (\<lambda>p t. True), result_get = (\<lambda>t. Some (Success []))\<rparr> > 100
   \<and> process_photo \<lparr>qsize = 101, queue_put = (\<lambda>p t. True), result_get = (\<lambda>t. Some (Success []))\<rparr>
        (Inr (Some \<lparr>file_reference = Some ''a.jpg'', photoPath = None\<rparr>))
      = \<lparr>reply = \<lparr>status_code = 503,
                   body = ErrorOnly ''Service overloaded, please try again later''\<rparr>,
         put_attempts = []\<rparr>
   \<and> \<not> queue_put \<lparr>qsize = 100, queue_put = (\<lambda>p t. False), result_get = (\<lambda>t. None)\<rparr> ''a.jpg'' 5
   \<and> process_photo \<lparr>qsize = 100, queue_put = (\<lambda>p t. False), result_get = (\<lambda>t. None)\<rparr>
        (Inr (Some \<lparr>file_reference = Some ''a.jpg'', photoPath = None\<rparr>))
      = \<lparr>reply = \<lparr>status_code = 503,
                   body = ErrorOnly ''Service overloaded, please try again later''\<rparr>,
         put_attempts = [(''a.jpg'', 5)]\<rparr>
   \<and> result_get \<lparr>qsize = 0, queue_put = (\<lambda>p t. True), result_get = (\<lambda>t. None)\<rparr> 120 = None
   \<and> process_photo \<lparr>qsize = 0, queue_put = (\<lambda>p t. True), result_get = (\<lambda>t. None)\<rparr>
        (Inr (Some \<lparr>file_reference = None, photoPath = Some ''a.jpg''\<rparr>))
      = \<lparr>reply = \<lparr>status_code = 504, body = ErrorOnly ''Processing timeout''\<rparr>,
         put_attempts = [(''a.jpg'', 5)]\<rparr>"
  using
    process_photo_overload_and_timeout
      [of "\<lparr>qsize = 101, queue_put = (\<lambda>p t. True), result_get = (\<lambda>t. Some (Success []))\<rparr>"
          "Inr (Some \<lparr>file_reference = Some ''a.jpg'', photoPath = None\<rparr>)"]
    process_photo_overload_and_timeout
      [of "\<lparr>qsize = 100, queue_put = (\<lambda>p t. False), result_get = (\<lambda>t. None)\<rparr>"
          "Inr (Some \<lparr>file_reference = Some ''a.jpg'', photoPath = None\<rparr>)"
          "\<lparr>file_reference = Some ''a.jpg'', photoPath = None\<rparr>" "''a.jpg''"]
    process_photo_overload_and_timeout
      [of "\<lparr>qsize = 0, queue_put = (\<lambda>p t. True), result_get = (\<lambda>t. None)\<rparr>"
          "Inr (Some \<lparr>file_reference = None, photoPath = Some ''a.jpg''\<rparr>)"
          "\<lparr>file_reference = None, photoPath = Some ''a.jpg''\<rparr>" "''a.jpg''"]
  by (simp add: truthy_def)

lemma lower_char_hex:
  "lower_char c \<in> set ''0123456789abcdef'' \<longleftrightarrow> c \<in> set ''0123456789abcdefABCDEF''"
  by (auto simp: lower_char_def split: if_splits)

lemma lower_hex:
  "list_all (\<lambda>c. c \<in> set ''0123456789abcdef'') (lower s)
     \<longleftrightarrow> (\<forall>c\<in>set s. c \<in> set ''0123456789abcdefABCDEF'')"
  unfolding lower_def list_all_iff
  using lower_char_hex by (simp only: set_map ball_simps) 

text \<open>
  Claim C6, as the code has it. The worker obtains the image by exactly one call, chosen
  by the form of the reference: a string that starts with \<^verbatim>\<open>http\<close> and contains
  \<^verbatim>\<open>cloudinary.com\<close> is fetched from itself with timeout 30; otherwise a string of 24
  hexadecimal digits, in lower or upper case, is fetched from the image service at
  \<^verbatim>\<open>http://localhost:5000/api/images/\<close> followed by the string; every other string is
  handed to \<^verbatim>\<open>process_image_file\<close> as a local path.
\<close>

theorem handle_job_dispatch:
  "calls (handle_job ext processor photo_path) =
     (if startswith photo_path ''http'' \<and> contains photo_path ''cloudinary.com'' then
        [RequestsGet photo_path 30]
      else if length photo_path = 24
              \<and> (\<forall>c\<in>set photo_path. c \<in> set ''0123456789abcdefABCDEF'') then
        [RequestsGet (''http://localhost:5000/api/images/'' @ photo_path) 30]
      else [ProcessImageFile photo_path])"
  unfolding handle_job_def lower_hex
  by (simp add: Let_def split: sum.splits)

theorem handle_job_dispatch_witness:
  "calls (handle_job offline unreadable_processor ''https://res.cloudinary.com/demo/a.jpg'')
     = [RequestsGet ''https://res.cloudinary.com/demo/a.jpg'' 30]
   \<and> calls (handle_job offline unreadable_processor ''0123456789abcdef01234567'')
     = [RequestsGet ''http://localhost:5000/api/images/0123456789abcdef01234567'' 30]
   \<and> calls (handle_job offline unreadable_processor ''uploads/a.jpg'')
     = [ProcessImageFile ''uploads/a.jpg'']"
  using handle_job_dispatch [of offline unreadable_processor "''https://res.cloudinary.com/demo/a.jpg''"]
    handle_job_dispatch [of offline unreadable_processor "''0123456789abcdef01234567''"]
    handle_job_dispatch [of offline unreadable_processor "''uploads/a.jpg''"]
  by (simp add: startswith_def)

text \<open>
  Claim C6 as stated says that only lower-case tokens are looked up and every other
  string is a local path. A token of 24 upper-case hexadecimal digits is not lower-case
  hexadecimal and is no Cloudinary URL, and the worker looks it up at the image service:
  the test lowers the string first.
\<close>

theorem uppercase_token_is_looked_up:
  "\<not> list_all (\<lambda>c. c \<in> set ''0123456789abcdef'') ''ABCDEF0123456789ABCDEF01''
   \<and> \<not> (startswith ''ABCDEF0123456789ABCDEF01'' ''http''
          \<and> contains ''ABCDEF0123456789ABCDEF01'' ''cloudinary.com'')
   \<and> calls (handle_job offline unreadable_processor ''ABCDEF0123456789ABCDEF01'')
       = [RequestsGet ''http://localhost:5000/api/images/ABCDEF0123456789ABCDEF01'' 30]
   \<and> calls (handle_job offline unreadable_processor ''ABCDEF0123456789ABCDEF01'')
       \<noteq> [ProcessImageFile ''ABCDEF0123456789ABCDEF01'']"
  by (simp add: handle_job_def startswith_def lower_def lower_char_def offline_def
        fetch_and_detect_def)

lemma handle_job_one_put:
  "\<exists>r. puts (handle_job ext processor photo_path) = [r]
       \<and> (\<forall>fs. r = Success fs \<longrightarrow>
            (\<exists>url content img rgb.
                calls (handle_job ext processor photo_path) = [RequestsGet url 30]
                \<and> requests_get ext url 30 = Inr content
                \<and> imdecode ext content = Inr (Some img)
                \<and> cvtColor ext img = Inr rgb
                \<and> detect_faces processor rgb = Inr (Some fs))
            \<or> (calls (handle_job ext processor photo_path) = [ProcessImageFile photo_path]
                \<and> process_image_file processor photo_path = Inr (Some fs)))"
  unfolding handle_job_def fetch_and_detect_def send_result_def Let_def
  by (auto split: sum.splits option.splits)

lemma worker_loop_trace:
  "\<exists>st tr'. worker_loop ext processor tr outcomes = (st, tr')
      \<and> (st = Waiting \<or> st = Exited)
      \<and> delivered tr' = delivered tr
          @ concat (map (\<lambda>(p, q). map (Pair q) (puts (handle_job ext processor p)))
                     (jobs_served outcomes))
      \<and> task_done tr' = task_done tr + length (jobs_served outcomes)"
  by (induction ext processor tr outcomes rule: worker_loop.induct) (auto simp: Let_def)

lemma map_fst_concat_one:
  assumes "\<And>p. length (f p) = 1"
  shows "map fst (concat (map (\<lambda>(p, q). map (Pair q) (f p)) js)) = map snd js"
proof (induction js)
  case Nil
  then show ?case by simp
next
  case (Cons j js)
  obtain p q where j: "j = (p, q)" by (cases j)
  from assms [of p] obtain r where "f p = [r]"
    by (cases "f p") auto
  with Cons j show ?case by simp
qed

text \<open>
  Claim C5. For every job the worker puts exactly one result on the job's result queue,
  and the result is a success only if every stage on the job's path returned: the fetch,
  the decoding, the colour conversion and the face detection, or the processing of the
  local file. So every failure of a stage is delivered as an error result. The loop never
  ends with an exception: it is waiting or has exited on the shutdown signal, and every
  job taken before the shutdown signal, also one that follows a failed job, has its one
  result, in the order of the jobs.
\<close>

theorem worker_captures_failures:
  "(\<exists>r. puts (handle_job ext processor photo_path) = [r]
       \<and> (\<forall>fs. r = Success fs \<longrightarrow>
            (\<exists>url content img rgb.
                calls (handle_job ext processor photo_path) = [RequestsGet url 30]
                \<and> requests_get ext url 30 = Inr content
                \<and> imdecode ext content = Inr (Some img)
                \<and> cvtColor ext img = Inr rgb
                \<and> detect_faces processor rgb = Inr (Some fs))
            \<or> (calls (handle_job ext processor photo_path) = [ProcessImageFile photo_path]
                \<and> process_image_file processor photo_path = Inr (Some fs))))
   \<and> (\<exists>st tr. process_worker ext (Inr processor) outcomes = (st, tr)
         \<and> (st = Waiting \<or> st = Exited)
         \<and> delivered tr
             = concat (map (\<lambda>(p, q). map (Pair q) (puts (handle_job ext processor p)))
                        (jobs_served outcomes))
         \<and> map fst (delivered tr) = map snd (jobs_served outcomes)
         \<and> task_done tr = length (jobs_served outcomes))"
proof -
  have one: "\<And>p. length (puts (handle_job ext processor p)) = 1"
    using handle_job_one_put [of ext processor] by (metis length_Cons list.size(3) One_nat_def)
  obtain st tr where run: "process_worker ext (Inr processor) outcomes = (st, tr)"
      and st: "st = Waiting \<or> st = Exited"
      and del: "delivered tr
             = concat (map (\<lambda>(p, q). map (Pair q) (puts (handle_job ext processor p)))
                        (jobs_served outcomes))"
      and td: "task_done tr = length (jobs_served outcomes)"
    using worker_loop_trace
      [of ext processor "\<lparr>requested = [], delivered = [], task_done = 0\<rparr>" outcomes]
    by (auto simp: process_worker_def)
  have "map fst (delivered tr) = map snd (jobs_served outcomes)"
    unfolding del by (rule map_fst_concat_one) (rule one)
  with run st del td handle_job_one_put [of ext processor photo_path] show ?thesis
    by blast
qed

theorem worker_captures_failures_witness:
  "process_worker offline (Inr unreadable_processor)
      [Got (Job ''broken.jpg'' (1::nat)), Empty, Got (Job ''0123456789abcdef01234567'' 2),
       Got (Job ''ok.jpg'' 3), Got Shutdown, Got (Job ''late.jpg'' 4)]
     = (Exited,
        \<lparr>requested = [ProcessImageFile ''broken.jpg'',
                      RequestsGet ''http://localhost:5000/api/images/0123456789abcdef01234567'' 30,
                      ProcessImageFile ''ok.jpg''],
         delivered = [(1, Error ''File processing error: cannot read image''),
                      (2, Error ''GridFS processing error: Connection refused''),
                      (3, Success [])],
         task_done = 3\<rparr>)
   \<and> map fst (delivered (snd (process_worker offline (Inr unreadable_processor)
      [Got (Job ''broken.jpg'' (1::nat)), Empty, Got (Job ''0123456789abcdef01234567'' 2),
       Got (Job ''ok.jpg'' 3), Got Shutdown, Got (Job ''late.jpg'' 4)])))
     = map snd (jobs_served
      [Got (Job ''broken.jpg'' (1::nat)), Empty, Got (Job ''0123456789abcdef01234567'' 2),
       Got (Job ''ok.jpg'' 3), Got Shutdown, Got (Job ''late.jpg'' 4)])"
  using worker_captures_failures [of offline unreadable_processor "''broken.jpg''"
      "[Got (Job ''broken.jpg'' (1::nat)), Empty, Got (Job ''0123456789abcdef01234567'' 2),
       Got (Job ''ok.jpg'' 3), Got Shutdown, Got (Job ''late.jpg'' 4)]"]
  by (simp add: process_worker_def handle_job_def startswith_def lower_def lower_char_def
        offline_def unreadable_processor_def fetch_and_detect_def send_result_def)

section \<open>Properties of the endpoint /compare-faces\<close>

subsection \<open>The sort on scores without nan\<close>






subsection \<open>A stable sort in descending order\<close>







subsection \<open>The matches of a request\<close>





subsection \<open>Three requests\<close>











end
